theory Spec2Isabelle
  imports Main "HOL-Library.Word"
begin

unbundle bit_operations_syntax

section \<open>JavaScript values the component handles\<close>

text \<open>
  A JavaScript string is a sequence of 16-bit code units. String literals of the source
  are ASCII; \<open>str\<close> turns the literal into its code units.
\<close>

type_synonym jsstring = "16 word list"

definition str :: "string \<Rightarrow> jsstring" where
  "str s = map of_char s"

text \<open>
  \<open>String.prototype.trim\<close> removes, at both ends, the code points of the ECMAScript
  productions WhiteSpace (TAB, VT, FF, ZWNBSP and the category Zs) and LineTerminator
  (LF, CR, LS, PS). All of them are single code units.
\<close>

definition WhiteSpace :: "16 word \<Rightarrow> bool" where
  "WhiteSpace c =
     (c \<in> set [0x0009, 0x000B, 0x000C, 0xFEFF, 0x0020, 0x00A0, 0x1680, 0x202F, 0x205F, 0x3000]
      \<or> (0x2000 \<le> c \<and> c \<le> 0x200A))"

definition LineTerminator :: "16 word \<Rightarrow> bool" where
  "LineTerminator c = (c \<in> set [0x000A, 0x000D, 0x2028, 0x2029])"

definition trimmable :: "16 word \<Rightarrow> bool" where
  "trimmable c = (WhiteSpace c \<or> LineTerminator c)"

definition trim :: "jsstring \<Rightarrow> jsstring" where
  "trim s = rev (dropWhile trimmable (rev (dropWhile trimmable s)))"

text \<open>
  What \<open>response.json()\<close> resolves with: a JSON value. A number is the IEEE double that
  the parser produced, kept as its 64 bits; an object is the list of its members in the
  order of the text. Reading a property gives a \<open>jsval\<close>, where \<open>None\<close> is
  \<open>undefined\<close>.
\<close>

datatype json =
    JNull
  | JBool bool
  | JNum "64 word"
  | JStr jsstring
  | JArr "json list"
  | JObj "(jsstring \<times> json) list"

type_synonym jsval = "json option"

text \<open>A double is falsy when it is +0, -0 or a NaN.\<close>

definition number_truthy :: "64 word \<Rightarrow> bool" where
  "number_truthy d =
     (let magnitude = d AND 0x7FFFFFFFFFFFFFFF
      in magnitude \<noteq> 0 \<and> magnitude \<le> 0x7FF0000000000000)"

fun ToBoolean :: "jsval \<Rightarrow> bool" where
  "ToBoolean None = False"
| "ToBoolean (Some JNull) = False"
| "ToBoolean (Some (JBool b)) = b"
| "ToBoolean (Some (JNum d)) = number_truthy d"
| "ToBoolean (Some (JStr s)) = (s \<noteq> [])"
| "ToBoolean (Some (JArr xs)) = True"
| "ToBoolean (Some (JObj kvs)) = True"

fun typeof :: "jsval \<Rightarrow> string" where
  "typeof None = ''undefined''"
| "typeof (Some JNull) = ''object''"
| "typeof (Some (JBool b)) = ''boolean''"
| "typeof (Some (JNum d)) = ''number''"
| "typeof (Some (JStr s)) = ''string''"
| "typeof (Some (JArr xs)) = ''object''"
| "typeof (Some (JObj kvs)) = ''object''"

text \<open>The operator \<open>a || b\<close> with a literal on the right.\<close>

definition or_else :: "jsval \<Rightarrow> json \<Rightarrow> json" where
  "or_else a b = (case a of None \<Rightarrow> b | Some v \<Rightarrow> if ToBoolean a then v else b)"

text \<open>
  A thrown value, as the \<open>catch\<close> clause tells them apart: an instance of \<open>Error\<close>
  with its message, or anything else. A promise is settled one way or the other.
\<close>

datatype thrown = Error_instance jsstring | Not_an_error

datatype 'a settled = Fulfilled 'a | Rejected thrown

text \<open>
  Reading the property \<open>detail\<close> or \<open>content\<close> (names that no prototype defines):
  of \<open>null\<close> it throws a TypeError, whose message is the engine's own; of an object it is
  the member of that name, the last one when the text repeated the name, as
  \<open>JSON.parse\<close> keeps it; of an array or a primitive it is \<open>undefined\<close>.
\<close>

fun own_property :: "jsstring \<Rightarrow> json \<Rightarrow> jsval" where
  "own_property p (JObj kvs) = map_of (rev kvs) p"
| "own_property p v = None"

definition read_property :: "jsstring \<Rightarrow> jsstring \<Rightarrow> json \<Rightarrow> thrown + jsval" where
  "read_property type_error_message p v =
     (case v of JNull \<Rightarrow> Inl (Error_instance type_error_message)
      | _ \<Rightarrow> Inr (own_property p v))"

section \<open>Collaborators\<close>

text \<open>
  What surrounds the component and is not in its file: the configured
  \<open>HTTP_BACKEND_URL\<close>, and the messages the JavaScript engine gives the TypeError it throws
  at \<open>err.detail\<close> and at \<open>const { content } = ...\<close> when the value is \<open>null\<close>.
\<close>

record env =
  HTTP_BACKEND_URL :: jsstring
  null_member_message :: jsstring
  null_destructure_message :: jsstring

text \<open>The argument of \<open>fetch\<close>; \<open>body\<close> is the value given to \<open>JSON.stringify\<close>.\<close>

record request =
  endpoint :: jsstring
  http_method :: jsstring
  headers :: "(jsstring \<times> jsstring) list"
  body :: json

text \<open>
  The \<open>Response\<close> that \<open>fetch\<close> resolves with, as far as the component reads it;
  \<open>response_json\<close> is how \<open>response.json()\<close> settles.
\<close>

record response =
  ok :: bool
  statusText :: jsstring
  response_json :: "json settled"

text \<open>A dropped \<open>File\<close>; \<open>file_text\<close> is how \<open>file.text()\<close> settles.\<close>

record File =
  file_name :: jsstring
  file_text :: "jsstring settled"

record keyevent =
  key :: jsstring
  metaKey :: bool
  ctrlKey :: bool
  defaultPrevented :: bool

text \<open>
  The calls the component makes on its collaborators, in the order it makes them. The
  type \<open>'k\<close> is the enumeration \<open>Stack\<close>, declared in another module.
\<close>

datatype 'k effect =
    Toast_error json
  | Toast_success json
  | ImportFromCode jsstring 'k
  | Fetch request
  | File_text File
  | SetTimeout_focus nat
  | Promise_rejected thrown

section \<open>The state of ImportTab\<close>

record 'k state =
  code :: jsstring
  url :: jsstring
  stack :: "'k option"
  isDraggingFile :: bool
  isScraping :: bool

definition initial :: "'k \<Rightarrow> 'k state" where
  "initial HTML_TAILWIND =
     \<lparr>code = [], url = [], stack = Some HTML_TAILWIND,
      isDraggingFile = False, isScraping = False\<rparr>"

definition setCode :: "jsstring \<Rightarrow> 'k state \<Rightarrow> 'k state" where
  "setCode c s = s\<lparr>code := c\<rparr>"

definition setUrl :: "jsstring \<Rightarrow> 'k state \<Rightarrow> 'k state" where
  "setUrl u s = s\<lparr>url := u\<rparr>"

definition setStack :: "'k option \<Rightarrow> 'k state \<Rightarrow> 'k state" where
  "setStack k s = s\<lparr>stack := k\<rparr>"

definition setIsDraggingFile :: "bool \<Rightarrow> 'k state \<Rightarrow> 'k state" where
  "setIsDraggingFile b s = s\<lparr>isDraggingFile := b\<rparr>"

definition setIsScraping :: "bool \<Rightarrow> 'k state \<Rightarrow> 'k state" where
  "setIsScraping b s = s\<lparr>isScraping := b\<rparr>"

section \<open>doImport and handleKeyDown\<close>

definition doImport :: "'k state \<Rightarrow> 'k effect list \<times> 'k state" where
  "doImport s =
     (if code s = [] then ([Toast_error (JStr (str ''Please paste in some code''))], s)
      else case stack s of
        None \<Rightarrow> ([Toast_error (JStr (str ''Please select your stack''))], s)
      | Some k \<Rightarrow> ([ImportFromCode (code s) k], s))"

text \<open>
  \<open>e.preventDefault()\<close> changes the event object, which is returned with the effects
  and the state.
\<close>

definition handleKeyDown ::
  "keyevent \<Rightarrow> 'k state \<Rightarrow> keyevent \<times> 'k effect list \<times> 'k state" where
  "handleKeyDown e s =
     (if key e = str ''Enter'' \<and> (metaKey e \<or> ctrlKey e)
      then (e\<lparr>defaultPrevented := True\<rparr>, doImport s)
      else (e, [], s))"

section \<open>doScrape\<close>

definition scrape_request :: "env \<Rightarrow> jsstring \<Rightarrow> request" where
  "scrape_request env trimmedUrl =
     \<lparr>endpoint = HTTP_BACKEND_URL env @ str ''/api/scrape-url'',
      http_method = str ''POST'',
      headers = [(str ''Content-Type'', str ''application/json'')],
      body = JObj [(str ''url'', JStr trimmedUrl)]\<rparr>"

text \<open>
  Lines 42 to 49, up to the first \<open>await\<close>: the effects, the state, and whether the
  request was sent.
\<close>

definition doScrape_dispatch ::
  "env \<Rightarrow> 'k state \<Rightarrow> 'k effect list \<times> 'k state \<times> bool" where
  "doScrape_dispatch env s =
     (let trimmedUrl = trim (url s)
      in if trimmedUrl = []
         then ([Toast_error (JStr (str ''Please enter a URL to scrape''))], s, False)
         else ([Fetch (scrape_request env trimmedUrl)], setIsScraping True s, True))"

text \<open>
  The body of \<open>try\<close> once \<open>fetch\<close> has settled, lines 49 to 65, on the state of that
  moment: \<open>Inl\<close> is the exception that reaches \<open>catch\<close>. The code between the two
  \<open>await\<close>s reads and writes no state. Where \<open>setCode(content)\<close> is reached,
  \<open>content\<close> is a string by the test before it, so the last case has no run.
\<close>

definition doScrape_try ::
  "env \<Rightarrow> response settled \<Rightarrow> 'k state \<Rightarrow> thrown + ('k effect list \<times> 'k state)" where
  "doScrape_try env fetched s =
     (case fetched of
        Rejected e \<Rightarrow> Inl e
      | Fulfilled response \<Rightarrow>
          if \<not> ok response then
            (let err = (case response_json response of
                          Fulfilled v \<Rightarrow> v
                        | Rejected e \<Rightarrow> JObj [(str ''detail'', JStr (statusText response))])
             in case read_property (null_member_message env) (str ''detail'') err of
                  Inl e \<Rightarrow> Inl e
                | Inr detail \<Rightarrow>
                    Inr ([Toast_error (or_else detail (JStr (str ''Failed to scrape URL'')))], s))
          else
            (case response_json response of
               Rejected e \<Rightarrow> Inl e
             | Fulfilled v \<Rightarrow>
                 (case read_property (null_destructure_message env) (str ''content'') v of
                    Inl e \<Rightarrow> Inl e
                  | Inr content \<Rightarrow>
                      if \<not> ToBoolean content \<or> typeof content \<noteq> ''string''
                      then Inr ([Toast_error (JStr (str ''Invalid response from server''))], s)
                      else (case content of
                              Some (JStr c) \<Rightarrow>
                                Inr ([Toast_success (JStr (str
                                  ''Full HTML scraped. Review below and click Import Code when ready.''))],
                                     setCode c s)
                            | _ \<Rightarrow> Inr ([], s)))))"

text \<open>The clauses \<open>catch\<close> and \<open>finally\<close>, lines 66 to 70.\<close>

definition doScrape_settle ::
  "env \<Rightarrow> response settled \<Rightarrow> 'k state \<Rightarrow> 'k effect list \<times> 'k state" where
  "doScrape_settle env fetched s =
     (let (effects, s') =
        (case doScrape_try env fetched s of
           Inr r \<Rightarrow> r
         | Inl e \<Rightarrow>
             ([Toast_error (JStr (case e of Error_instance message \<Rightarrow> message
                                  | Not_an_error \<Rightarrow> str ''Failed to scrape URL''))], s))
      in (effects, setIsScraping False s'))"

text \<open>
  The whole of \<open>doScrape\<close> when nothing else happens while the request is in flight;
  \<open>fetched\<close> is how the request settles.
\<close>

definition doScrape ::
  "env \<Rightarrow> response settled \<Rightarrow> 'k state \<Rightarrow> 'k effect list \<times> 'k state" where
  "doScrape env fetched s =
     (let (sent_effects, s1, sent) = doScrape_dispatch env s
      in if sent
         then (let (effects, s2) = doScrape_settle env fetched s1 in (sent_effects @ effects, s2))
         else (sent_effects, s1))"

section \<open>onDrop\<close>

text \<open>Lines 90 to 93, up to the \<open>await\<close>.\<close>

definition onDrop_begin :: "File list \<Rightarrow> 'k state \<Rightarrow> 'k effect list \<times> 'k state" where
  "onDrop_begin acceptedFiles s =
     (case acceptedFiles of
        [] \<Rightarrow> ([], setIsDraggingFile False s)
      | file0 # rest \<Rightarrow> ([File_text file0], setIsDraggingFile False s))"

text \<open>
  Lines 93 to 95, once \<open>file.text()\<close> has settled, on the state of that moment. A
  rejection is not caught: the handler's promise rejects.
\<close>

definition onDrop_resume :: "jsstring settled \<Rightarrow> 'k state \<Rightarrow> 'k effect list \<times> 'k state" where
  "onDrop_resume read s =
     (case read of
        Fulfilled contents \<Rightarrow> ([SetTimeout_focus 50], setCode contents s)
      | Rejected e \<Rightarrow> ([Promise_rejected e], s))"

definition onDrop :: "File list \<Rightarrow> 'k state \<Rightarrow> 'k effect list \<times> 'k state" where
  "onDrop acceptedFiles s =
     (let (effects, s1) = onDrop_begin acceptedFiles s
      in case acceptedFiles of
           [] \<Rightarrow> (effects, s1)
         | file0 # rest \<Rightarrow>
             (let (effects', s2) = onDrop_resume (file_text file0) s1
              in (effects @ effects', s2)))"

section \<open>The component as a machine of events\<close>

text \<open>
  The handlers run one at a time, each up to its \<open>await\<close>; a request or a file read in
  flight settles as an event of its own, and other events may come before it. The button
  of \<open>doScrape\<close> is disabled as line 145 says.
\<close>

record 'k world =
  ui :: "'k state"
  fetching :: nat
  reading :: "File list"

datatype 'k event =
    Change_code jsstring
  | Change_url jsstring
  | Select_stack 'k
  | Click_import
  | Key_down keyevent
  | Click_scrape
  | Fetch_settles "response settled"
  | Drag_enter
  | Drag_leave
  | Drop "File list"
  | Read_settles nat

definition scrape_disabled :: "'k state \<Rightarrow> bool" where
  "scrape_disabled s = (trim (url s) = [] \<or> isScraping s)"

fun step :: "env \<Rightarrow> 'k event \<Rightarrow> 'k world \<Rightarrow> 'k effect list \<times> 'k world" where
  "step env (Change_code c) w = ([], w\<lparr>ui := setCode c (ui w)\<rparr>)"
| "step env (Change_url u) w = ([], w\<lparr>ui := setUrl u (ui w)\<rparr>)"
| "step env (Select_stack k) w = ([], w\<lparr>ui := setStack (Some k) (ui w)\<rparr>)"
| "step env Click_import w =
     (let (effects, s) = doImport (ui w) in (effects, w\<lparr>ui := s\<rparr>))"
| "step env (Key_down e) w =
     (let (e', effects, s) = handleKeyDown e (ui w) in (effects, w\<lparr>ui := s\<rparr>))"
| "step env Click_scrape w =
     (if scrape_disabled (ui w) then ([], w)
      else (let (effects, s, sent) = doScrape_dispatch env (ui w)
            in (effects, w\<lparr>ui := s, fetching := fetching w + (if sent then 1 else 0)\<rparr>)))"
| "step env (Fetch_settles fetched) w =
     (if fetching w = 0 then ([], w)
      else (let (effects, s) = doScrape_settle env fetched (ui w)
            in (effects, w\<lparr>ui := s, fetching := fetching w - 1\<rparr>)))"
| "step env Drag_enter w = ([], w\<lparr>ui := setIsDraggingFile True (ui w)\<rparr>)"
| "step env Drag_leave w = ([], w\<lparr>ui := setIsDraggingFile False (ui w)\<rparr>)"
| "step env (Drop acceptedFiles) w =
     (let (effects, s) = onDrop_begin acceptedFiles (ui w)
      in (effects, w\<lparr>ui := s, reading := reading w @ take 1 acceptedFiles\<rparr>))"
| "step env (Read_settles i) w =
     (if i < length (reading w)
      then (let (effects, s) = onDrop_resume (file_text (reading w ! i)) (ui w)
            in (effects, w\<lparr>ui := s, reading := take i (reading w) @ drop (Suc i) (reading w)\<rparr>))
      else ([], w))"

fun run :: "env \<Rightarrow> 'k event list \<Rightarrow> 'k world \<Rightarrow> 'k world" where
  "run env [] w = w"
| "run env (ev # evs) w = run env evs (snd (step env ev w))"

definition start :: "'k \<Rightarrow> 'k world" where
  "start HTML_TAILWIND = \<lparr>ui = initial HTML_TAILWIND, fetching = 0, reading = []\<rparr>"

text \<open>The requests among the effects, in order.\<close>

fun requests :: "'k effect list \<Rightarrow> request list" where
  "requests [] = []"
| "requests (Fetch rq # effects) = rq # requests effects"
| "requests (e # effects) = requests effects"

text \<open>
  What the machine keeps true: at most one request is in flight, and \<open>isScraping\<close>
  holds exactly while one is.
\<close>

definition busy_inv :: "'k world \<Rightarrow> bool" where
  "busy_inv w = (fetching w \<le> 1 \<and> isScraping (ui w) = (fetching w = 1))"

section \<open>Sample inputs\<close>

text \<open>
  An environment with the messages of V8, states with a pasted text and a typed URL, and
  responses of the backend. The stack is named by its string, as a TypeScript string
  enumeration is.
\<close>

definition sample_env :: env where
  "sample_env =
     \<lparr>HTTP_BACKEND_URL = str ''http://127.0.0.1:7001'',
      null_member_message = str ''Cannot read properties of null (reading 'detail')'',
      null_destructure_message =
        str ''Cannot destructure property 'content' of '(intermediate value)' as it is null.''\<rparr>"

definition pasted :: "string state" where
  "pasted =
     \<lparr>code = str ''<p>hi</p>'', url = [], stack = Some ''html_tailwind'',
      isDraggingFile = False, isScraping = False\<rparr>"

definition typed_url :: "string state" where
  "typed_url =
     \<lparr>code = str ''<p>hi</p>'', url = str '' https://example.com '',
      stack = Some ''html_tailwind'', isDraggingFile = False, isScraping = False\<rparr>"

definition ctrl_enter :: keyevent where
  "ctrl_enter = \<lparr>key = str ''Enter'', metaKey = False, ctrlKey = True, defaultPrevented = False\<rparr>"

definition scraped :: response where
  "scraped =
     \<lparr>ok = True, statusText = str ''OK'',
      response_json = Fulfilled (JObj [(str ''content'', JStr (str ''<html>...</html>''))])\<rparr>"

definition no_content :: response where
  "no_content = \<lparr>ok = True, statusText = str ''OK'', response_json = Fulfilled (JObj [])\<rparr>"

definition null_body :: response where
  "null_body = \<lparr>ok = True, statusText = str ''OK'', response_json = Fulfilled JNull\<rparr>"

definition bad_url :: response where
  "bad_url =
     \<lparr>ok = False, statusText = str ''Bad Request'',
      response_json = Fulfilled (JObj [(str ''detail'', JStr (str ''bad url''))])\<rparr>"

definition bad_gateway :: response where
  "bad_gateway =
     \<lparr>ok = False, statusText = str ''Bad Gateway'',
      response_json = Rejected (Error_instance (str ''Unexpected token < in JSON at position 0''))\<rparr>"

text \<open>Over HTTP/2 a response has no reason phrase: \<open>statusText\<close> is empty.\<close>

definition bad_gateway_http2 :: response where
  "bad_gateway_http2 =
     \<lparr>ok = False, statusText = [],
      response_json = Rejected (Error_instance (str ''Unexpected token < in JSON at position 0''))\<rparr>"

definition hi_html :: File where
  "hi_html = \<lparr>file_name = str ''hi.html'', file_text = Fulfilled (str ''<p>hi</p>'')\<rparr>"

section \<open>Facts about the parts of doScrape\<close>

lemma all_trimmable_trim:
  assumes "\<forall>c \<in> set s. trimmable c"
  shows "trim s = []"
proof -
  from assms have d: "dropWhile trimmable s = []" by simp
  show ?thesis unfolding trim_def d by simp
qed

lemma read_property_not_null:
  "v \<noteq> JNull \<Longrightarrow> read_property m p v = Inr (own_property p v)"
  by (cases v) (simp_all add: read_property_def)

lemma own_property_Some_not_null: "own_property p v = Some x \<Longrightarrow> v \<noteq> JNull"
  by (cases v) simp_all

lemma settle_isScraping: "isScraping (snd (doScrape_settle env fetched s)) = False"
  by (simp add: doScrape_settle_def setIsScraping_def split: prod.splits)

lemma try_requests:
  "doScrape_try env fetched s = Inr (effects, s') \<Longrightarrow> requests effects = []"
  by (auto simp: doScrape_try_def Let_def
      split: settled.splits if_splits sum.splits option.splits json.splits)

lemma settle_requests: "requests (fst (doScrape_settle env fetched s)) = []"
  by (auto simp: doScrape_settle_def Let_def dest: try_requests split: sum.splits prod.splits)

lemma doScrape_sent:
  "trim (url s) \<noteq> [] \<Longrightarrow>
     doScrape env fetched s =
       (Fetch (scrape_request env (trim (url s)))
          # fst (doScrape_settle env fetched (setIsScraping True s)),
        snd (doScrape_settle env fetched (setIsScraping True s)))"
  by (simp add: doScrape_def doScrape_dispatch_def Let_def split: prod.splits)

lemma doScrape_not_sent:
  "trim (url s) = [] \<Longrightarrow>
     doScrape env fetched s = ([Toast_error (JStr (str ''Please enter a URL to scrape''))], s)"
  by (simp add: doScrape_def doScrape_dispatch_def Let_def)

lemma settle_ok_parsed:
  "ok r \<Longrightarrow> response_json r = Fulfilled v \<Longrightarrow> v \<noteq> JNull \<Longrightarrow>
     doScrape_settle env (Fulfilled r) s =
       (case own_property (str ''content'') v of
          Some (JStr c) \<Rightarrow>
            if c = []
            then ([Toast_error (JStr (str ''Invalid response from server''))],
                  setIsScraping False s)
            else ([Toast_success (JStr (str
                    ''Full HTML scraped. Review below and click Import Code when ready.''))],
                  setIsScraping False (setCode c s))
        | _ \<Rightarrow> ([Toast_error (JStr (str ''Invalid response from server''))],
                 setIsScraping False s))"
  by (simp add: doScrape_settle_def doScrape_try_def read_property_not_null
      split: option.splits json.splits)

lemma settle_failed_parsed:
  "\<not> ok r \<Longrightarrow> response_json r = Fulfilled v \<Longrightarrow> v \<noteq> JNull \<Longrightarrow>
     doScrape_settle env (Fulfilled r) s =
       ([Toast_error (or_else (own_property (str ''detail'') v)
                        (JStr (str ''Failed to scrape URL'')))],
        setIsScraping False s)"
  by (simp add: doScrape_settle_def doScrape_try_def read_property_not_null)

lemma settle_failed_unparsed:
  "\<not> ok r \<Longrightarrow> response_json r = Rejected e \<Longrightarrow>
     doScrape_settle env (Fulfilled r) s =
       ([Toast_error (if statusText r = [] then JStr (str ''Failed to scrape URL'')
                      else JStr (statusText r))],
        setIsScraping False s)"
  by (simp add: doScrape_settle_def doScrape_try_def read_property_def or_else_def str_def)

lemma settle_failed_code:
  "\<not> ok r \<Longrightarrow> code (snd (doScrape_settle env (Fulfilled r) s)) = code s"
  by (simp add: doScrape_settle_def doScrape_try_def read_property_def setIsScraping_def Let_def
      split: settled.splits json.splits prod.splits)

section \<open>The busy flag along every run\<close>

lemma step_busy_inv: "busy_inv w \<Longrightarrow> busy_inv (snd (step env ev w))"
proof (cases ev)
  case Click_scrape
  assume "busy_inv w"
  then show ?thesis
    by (auto simp: Click_scrape busy_inv_def scrape_disabled_def doScrape_dispatch_def
        setIsScraping_def Let_def)
next
  case (Fetch_settles fetched)
  assume "busy_inv w"
  then show ?thesis
    using settle_isScraping [of env fetched "ui w"]
    by (auto simp: Fetch_settles busy_inv_def split: prod.splits)
next
  case Click_import
  assume "busy_inv w"
  then show ?thesis
    by (auto simp: Click_import busy_inv_def doImport_def split: prod.splits option.splits)
next
  case (Key_down e)
  assume "busy_inv w"
  then show ?thesis
    by (auto simp: Key_down busy_inv_def handleKeyDown_def doImport_def
        split: prod.splits option.splits if_splits)
next
  case (Drop fs)
  assume "busy_inv w"
  then show ?thesis
    by (auto simp: Drop busy_inv_def onDrop_begin_def setIsDraggingFile_def
        split: prod.splits list.splits)
next
  case (Read_settles i)
  assume "busy_inv w"
  then show ?thesis
    by (auto simp: Read_settles busy_inv_def onDrop_resume_def setCode_def
        split: prod.splits settled.splits)
qed (auto simp: busy_inv_def setCode_def setUrl_def setStack_def setIsDraggingFile_def)

lemma run_busy_inv: "busy_inv w \<Longrightarrow> busy_inv (run env evs w)"
  by (induction evs arbitrary: w) (simp_all add: step_busy_inv)

lemma start_busy_inv: "busy_inv (start k)"
  by (simp add: busy_inv_def start_def initial_def)

lemma paste_drop_keep_busy:
  "isScraping (ui (snd (step env (Change_code c) w))) = isScraping (ui w)"
  "isScraping (ui (snd (step env (Drop fs) w))) = isScraping (ui w)"
  "isScraping (ui (snd (step env (Read_settles i) w))) = isScraping (ui w)"
  by (auto simp: setCode_def onDrop_begin_def onDrop_resume_def setIsDraggingFile_def
      split: prod.splits list.splits settled.splits)

section \<open>The claims\<close>

text \<open>
  C1. When the text buffer is not empty and a stack is selected, \<open>doImport\<close> calls
  \<open>importFromCode\<close> once, with that buffer and that stack, does nothing else, and
  leaves the whole state as it was: the buffer is not cleared.
\<close>

theorem doImport_calls_importFromCode:
  "code s \<noteq> [] \<Longrightarrow> stack s = Some k \<Longrightarrow> doImport s = ([ImportFromCode (code s) k], s)"
  by (simp add: doImport_def)

theorem doImport_calls_importFromCode_witness:
  "doImport pasted = ([ImportFromCode (str ''<p>hi</p>'') ''html_tailwind''], pasted)"
  using doImport_calls_importFromCode [of pasted "''html_tailwind''"]
  by (simp add: pasted_def str_def)

text \<open>
  C2. Once \<open>doScrape\<close> is past the check of the URL, \<open>isScraping\<close> is false when it
  ends, however the request settles (resolved or rejected, whatever the response), on
  whatever state it resumes. Along every run of the component from its first state, at
  most one request is in flight and \<open>isScraping\<close> holds exactly while one is. Typing or
  pasting into the text area, dropping files and the end of a file read leave
  \<open>isScraping\<close> as it is.
\<close>

theorem busy_reset:
  "\<not> isScraping (snd (doScrape_settle env fetched s))
   \<and> (trim (url s) \<noteq> [] \<longrightarrow> \<not> isScraping (snd (doScrape env fetched s)))
   \<and> fetching (run env evs (start k)) \<le> 1
   \<and> isScraping (ui (run env evs (start k))) = (fetching (run env evs (start k)) = 1)
   \<and> isScraping (ui (snd (step env (Change_code c) w))) = isScraping (ui w)
   \<and> isScraping (ui (snd (step env (Drop acceptedFiles) w))) = isScraping (ui w)
   \<and> isScraping (ui (snd (step env (Read_settles i) w))) = isScraping (ui w)"
proof -
  have settled: "\<not> isScraping (snd (doScrape_settle env fetched s))"
    by (simp add: settle_isScraping)
  have whole: "trim (url s) \<noteq> [] \<longrightarrow> \<not> isScraping (snd (doScrape env fetched s))"
    by (simp add: doScrape_sent settle_isScraping)
  have "busy_inv (run env evs (start k))"
    by (rule run_busy_inv [OF start_busy_inv])
  then have one: "fetching (run env evs (start k)) \<le> 1"
    and between: "isScraping (ui (run env evs (start k))) = (fetching (run env evs (start k)) = 1)"
    by (simp_all add: busy_inv_def)
  from settled whole one between paste_drop_keep_busy [of env _ w] show ?thesis
    by blast
qed

theorem busy_reset_witness:
  "\<not> isScraping (snd (doScrape sample_env (Rejected (Error_instance (str ''Failed to fetch'')))
        typed_url))
   \<and> isScraping (ui (run sample_env [Change_url (str ''https://example.com''), Click_scrape]
        (start ''html_tailwind'')))"
proof -
  have nonempty: "trim (url typed_url) \<noteq> []"
    by code_simp
  have in_flight:
    "fetching (run sample_env [Change_url (str ''https://example.com''), Click_scrape]
        (start ''html_tailwind'')) = 1"
    by code_simp
  from nonempty in_flight
    busy_reset [of sample_env "Rejected (Error_instance (str ''Failed to fetch''))" typed_url
      "[Change_url (str ''https://example.com''), Click_scrape]" "''html_tailwind''"]
  show ?thesis by blast
qed

text \<open>
  C3. With an empty text buffer \<open>doImport\<close> only signals "Please paste in some code",
  whether a stack is selected or not; with a non-empty buffer and no stack it only signals
  "Please select your stack". In both cases \<open>importFromCode\<close> is not called and the
  state is as it was. The buffer is checked first: an empty buffer with no stack gives the
  first message.
\<close>

theorem doImport_validation:
  "(code s = [] \<longrightarrow>
      doImport s = ([Toast_error (JStr (str ''Please paste in some code''))], s))
   \<and> (code s \<noteq> [] \<and> stack s = None \<longrightarrow>
      doImport s = ([Toast_error (JStr (str ''Please select your stack''))], s))"
  by (simp add: doImport_def)

theorem doImport_validation_witness:
  "doImport (pasted\<lparr>code := [], stack := None\<rparr>)
     = ([Toast_error (JStr (str ''Please paste in some code''))],
        pasted\<lparr>code := [], stack := None\<rparr>)
   \<and> doImport (pasted\<lparr>stack := None\<rparr>)
     = ([Toast_error (JStr (str ''Please select your stack''))], pasted\<lparr>stack := None\<rparr>)"
proof -
  have empty: "code (pasted\<lparr>code := [], stack := None\<rparr>) = []"
    by simp
  have no_stack: "code (pasted\<lparr>stack := None\<rparr>) \<noteq> [] \<and> stack (pasted\<lparr>stack := None\<rparr>) = None"
    by (simp add: pasted_def str_def)
  from empty no_stack
    doImport_validation [of "pasted\<lparr>code := [], stack := None\<rparr>"]
    doImport_validation [of "pasted\<lparr>stack := None\<rparr>"]
  show ?thesis by blast
qed

text \<open>
  C4. When the request resolves with an HTTP success whose body has a member
  \<open>content\<close> that is a non-empty string, \<open>doScrape\<close> ends with the text buffer equal
  to that string, whatever the buffer held, and its only notification is the success
  message.
\<close>

theorem doScrape_success:
  assumes "ok r" and "response_json r = Fulfilled v"
    and "own_property (str ''content'') v = Some (JStr c)" and "c \<noteq> []"
  shows "doScrape_settle env (Fulfilled r) s =
           ([Toast_success (JStr (str
               ''Full HTML scraped. Review below and click Import Code when ready.''))],
            s\<lparr>code := c, isScraping := False\<rparr>)
         \<and> (trim (url s) \<noteq> [] \<longrightarrow>
              doScrape env (Fulfilled r) s =
                ([Fetch (scrape_request env (trim (url s))),
                  Toast_success (JStr (str
                    ''Full HTML scraped. Review below and click Import Code when ready.''))],
                 s\<lparr>code := c, isScraping := False\<rparr>))"
proof -
  from assms(3) have "v \<noteq> JNull" by (rule own_property_Some_not_null)
  with assms show ?thesis
    by (simp add: settle_ok_parsed doScrape_sent setCode_def setIsScraping_def)
qed

theorem doScrape_success_witness:
  "doScrape sample_env (Fulfilled scraped) typed_url =
     ([Fetch (scrape_request sample_env (str ''https://example.com'')),
       Toast_success (JStr (str
         ''Full HTML scraped. Review below and click Import Code when ready.''))],
      typed_url\<lparr>code := str ''<html>...</html>'', isScraping := False\<rparr>)"
proof -
  have content:
    "own_property (str ''content'') (JObj [(str ''content'', JStr (str ''<html>...</html>''))])
       = Some (JStr (str ''<html>...</html>''))"
    by code_simp
  have trimmed: "trim (url typed_url) = str ''https://example.com''"
    by code_simp
  have nonempty: "str ''<html>...</html>'' \<noteq> []" "str ''https://example.com'' \<noteq> []"
    by code_simp+
  from nonempty trimmed
    doScrape_success [of scraped _ "str ''<html>...</html>''" sample_env typed_url,
      OF _ _ content nonempty(1)]
  show ?thesis by (simp add: scraped_def)
qed

text \<open>
  C5, as stated, fails when the body of an HTTP success is the JSON value \<open>null\<close>: it
  has no member \<open>content\<close>, taking \<open>content\<close> out of it throws, and the notification
  carries the message of that TypeError, not "Invalid response from server".
\<close>

theorem doScrape_null_body_counterexample:
  "own_property (str ''content'') JNull = None
   \<and> doScrape_settle sample_env (Fulfilled null_body) typed_url =
       ([Toast_error (JStr (null_destructure_message sample_env))], typed_url)
   \<and> null_destructure_message sample_env \<noteq> str ''Invalid response from server''"
  by code_simp

text \<open>
  C5, amended. When the request resolves with an HTTP success whose body is a JSON value
  other than \<open>null\<close> that has no member \<open>content\<close>, or whose \<open>content\<close> is not a
  string, or is the empty string, \<open>doScrape\<close> leaves the text buffer as it was and its
  only notification is the failure "Invalid response from server".
\<close>

theorem doScrape_invalid_response:
  assumes "ok r" and "response_json r = Fulfilled v" and "v \<noteq> JNull"
    and "own_property (str ''content'') v = None
         \<or> (\<forall>c. own_property (str ''content'') v \<noteq> Some (JStr c))
         \<or> own_property (str ''content'') v = Some (JStr [])"
  shows "doScrape_settle env (Fulfilled r) s =
           ([Toast_error (JStr (str ''Invalid response from server''))],
            s\<lparr>isScraping := False\<rparr>)"
  using assms
  by (auto simp: settle_ok_parsed setIsScraping_def split: option.splits json.splits)

theorem doScrape_invalid_response_witness:
  "doScrape_settle sample_env (Fulfilled no_content) typed_url =
     ([Toast_error (JStr (str ''Invalid response from server''))], typed_url)"
proof -
  have "own_property (str ''content'') (JObj []) = None" by simp
  from doScrape_invalid_response [of no_content "JObj []" sample_env typed_url] this
  show ?thesis by (simp add: no_content_def typed_url_def)
qed

text \<open>
  C6, as stated, fails for an HTTP failure whose body cannot be parsed and whose status
  text is empty: the notification is "Failed to scrape URL", not the status text.
\<close>

theorem doScrape_empty_statusText_counterexample:
  "\<not> ok bad_gateway_http2
   \<and> response_json bad_gateway_http2
       = Rejected (Error_instance (str ''Unexpected token < in JSON at position 0''))
   \<and> fst (doScrape_settle sample_env (Fulfilled bad_gateway_http2) typed_url)
       = [Toast_error (JStr (str ''Failed to scrape URL''))]
   \<and> JStr (str ''Failed to scrape URL'') \<noteq> JStr (statusText bad_gateway_http2)"
  by code_simp

text \<open>
  C6, amended. For an HTTP failure: when the body parses and its member \<open>detail\<close> is
  truthy, the failure notification carries that \<open>detail\<close>; when the body parses to a
  value other than \<open>null\<close> whose \<open>detail\<close> is missing or falsy, it carries "Failed to
  scrape URL"; when the body cannot be parsed it carries the status text if that is not
  empty and "Failed to scrape URL" if it is. In every case the text buffer is left as
  it was.
\<close>

theorem doScrape_http_failure:
  assumes "\<not> ok r"
  shows "(response_json r = Fulfilled v \<and> own_property (str ''detail'') v = Some d
            \<and> ToBoolean (Some d) \<longrightarrow>
            fst (doScrape_settle env (Fulfilled r) s) = [Toast_error d])
         \<and> (response_json r = Fulfilled v \<and> v \<noteq> JNull
            \<and> \<not> ToBoolean (own_property (str ''detail'') v) \<longrightarrow>
            fst (doScrape_settle env (Fulfilled r) s)
              = [Toast_error (JStr (str ''Failed to scrape URL''))])
         \<and> (response_json r = Rejected e \<and> statusText r \<noteq> [] \<longrightarrow>
            fst (doScrape_settle env (Fulfilled r) s) = [Toast_error (JStr (statusText r))])
         \<and> (response_json r = Rejected e \<and> statusText r = [] \<longrightarrow>
            fst (doScrape_settle env (Fulfilled r) s)
              = [Toast_error (JStr (str ''Failed to scrape URL''))])
         \<and> code (snd (doScrape_settle env (Fulfilled r) s)) = code s"
proof -
  have parsed: "response_json r = Fulfilled v \<and> own_property (str ''detail'') v = Some d
      \<and> ToBoolean (Some d)
      \<longrightarrow> fst (doScrape_settle env (Fulfilled r) s) = [Toast_error d]"
    using assms own_property_Some_not_null [of "str ''detail''" v d]
    by (auto simp: settle_failed_parsed or_else_def)
  have falsy: "response_json r = Fulfilled v \<and> v \<noteq> JNull
      \<and> \<not> ToBoolean (own_property (str ''detail'') v)
      \<longrightarrow> fst (doScrape_settle env (Fulfilled r) s)
            = [Toast_error (JStr (str ''Failed to scrape URL''))]"
    using assms by (auto simp: settle_failed_parsed or_else_def split: option.splits)
  have unparsed: "response_json r = Rejected e \<longrightarrow>
      fst (doScrape_settle env (Fulfilled r) s) =
        [Toast_error (if statusText r = [] then JStr (str ''Failed to scrape URL'')
                      else JStr (statusText r))]"
    using assms by (simp add: settle_failed_unparsed)
  from parsed falsy unparsed settle_failed_code [OF assms, of env s] show ?thesis
    by simp
qed

theorem doScrape_http_failure_witness:
  "fst (doScrape_settle sample_env (Fulfilled bad_url) typed_url)
     = [Toast_error (JStr (str ''bad url''))]
   \<and> fst (doScrape_settle sample_env (Fulfilled bad_gateway) typed_url)
     = [Toast_error (JStr (str ''Bad Gateway''))]
   \<and> code (snd (doScrape_settle sample_env (Fulfilled bad_url) typed_url)) = str ''<p>hi</p>''"
proof -
  have failed: "\<not> ok bad_url" "\<not> ok bad_gateway"
    by (simp_all add: bad_url_def bad_gateway_def)
  have detail:
    "response_json bad_url = Fulfilled (JObj [(str ''detail'', JStr (str ''bad url''))])
     \<and> own_property (str ''detail'') (JObj [(str ''detail'', JStr (str ''bad url''))])
         = Some (JStr (str ''bad url''))
     \<and> ToBoolean (Some (JStr (str ''bad url'')))"
    by code_simp
  have unparsed:
    "response_json bad_gateway
       = Rejected (Error_instance (str ''Unexpected token < in JSON at position 0''))
     \<and> statusText bad_gateway \<noteq> []"
    by code_simp
  have status: "statusText bad_gateway = str ''Bad Gateway''" "code typed_url = str ''<p>hi</p>''"
    by (simp_all add: bad_gateway_def typed_url_def)
  from doScrape_http_failure [OF failed(1), of _ _ sample_env typed_url] detail
    doScrape_http_failure [OF failed(2), of _ _ sample_env typed_url] unparsed status
  show ?thesis by metis
qed

text \<open>
  C7. When the trimmed URL is empty, \<open>doScrape\<close> only signals "Please enter a URL to
  scrape": the state is as it was, so \<open>isScraping\<close> is not set, and no request is sent.
  When the trimmed URL is not empty, \<open>doScrape\<close> sends one request and no other,
  however it settles, and the body of that request is the object whose \<open>url\<close> is the
  trimmed URL.
\<close>

theorem doScrape_url_precondition:
  "(trim (url s) = [] \<longrightarrow>
      doScrape_dispatch env s
        = ([Toast_error (JStr (str ''Please enter a URL to scrape''))], s, False)
      \<and> doScrape env fetched s
        = ([Toast_error (JStr (str ''Please enter a URL to scrape''))], s))
   \<and> (trim (url s) \<noteq> [] \<longrightarrow>
      doScrape_dispatch env s
        = ([Fetch (scrape_request env (trim (url s)))], s\<lparr>isScraping := True\<rparr>, True)
      \<and> requests (fst (doScrape env fetched s)) = [scrape_request env (trim (url s))]
      \<and> body (scrape_request env (trim (url s))) = JObj [(str ''url'', JStr (trim (url s)))])"
  by (simp add: doScrape_not_sent doScrape_sent settle_requests doScrape_dispatch_def
      setIsScraping_def scrape_request_def)

theorem doScrape_url_precondition_witness:
  "doScrape sample_env (Fulfilled scraped) (typed_url\<lparr>url := str ''  ''\<rparr>)
     = ([Toast_error (JStr (str ''Please enter a URL to scrape''))],
        typed_url\<lparr>url := str ''  ''\<rparr>)
   \<and> requests (fst (doScrape sample_env (Fulfilled scraped) typed_url))
     = [scrape_request sample_env (str ''https://example.com'')]"
proof -
  have blank: "trim (url (typed_url\<lparr>url := str ''  ''\<rparr>)) = []"
    by code_simp
  have trimmed: "trim (url typed_url) = str ''https://example.com''"
    "str ''https://example.com'' \<noteq> []"
    by code_simp+
  from blank trimmed
    doScrape_url_precondition [of "typed_url\<lparr>url := str ''  ''\<rparr>" sample_env "Fulfilled scraped"]
    doScrape_url_precondition [of typed_url sample_env "Fulfilled scraped"]
  show ?thesis by simp
qed

text \<open>
  C8. With no accepted file, \<open>onDrop\<close> reads nothing and leaves the text buffer as it
  was. With accepted files, it reads the first one and no other, and when that read gives
  the file's text the buffer is exactly that text, whatever it held before and whatever
  was typed while the file was read.
\<close>

theorem onDrop_first_file:
  "onDrop [] s = ([], s\<lparr>isDraggingFile := False\<rparr>)
   \<and> code (snd (onDrop [] s)) = code s
   \<and> (file_text f = Fulfilled contents \<longrightarrow>
        onDrop (f # rest) s =
          ([File_text f, SetTimeout_focus 50], s\<lparr>code := contents, isDraggingFile := False\<rparr>))
   \<and> code (snd (onDrop_resume (Fulfilled contents) s')) = contents"
  by (simp add: onDrop_def onDrop_begin_def onDrop_resume_def setCode_def setIsDraggingFile_def)

theorem onDrop_first_file_witness:
  "onDrop [hi_html] pasted =
     ([File_text hi_html, SetTimeout_focus 50],
      pasted\<lparr>code := str ''<p>hi</p>'', isDraggingFile := False\<rparr>)"
proof -
  have "file_text hi_html = Fulfilled (str ''<p>hi</p>'')"
    by (simp add: hi_html_def)
  with onDrop_first_file [of pasted hi_html "str ''<p>hi</p>''" "[]" pasted]
  show ?thesis by blast
qed

text \<open>
  C9. On Enter with Cmd or Ctrl held, \<open>handleKeyDown\<close> marks the key event as
  handled and then does what \<open>doImport\<close> does: the same checks in the same order, the
  same notifications, the same call of \<open>importFromCode\<close>, the same state. In the
  component the key press and the click on the button give the same effects and the same
  next state.
\<close>

theorem handleKeyDown_is_doImport:
  "key e = str ''Enter'' \<Longrightarrow> metaKey e \<or> ctrlKey e \<Longrightarrow>
     handleKeyDown e s = (e\<lparr>defaultPrevented := True\<rparr>, doImport s)
     \<and> step env (Key_down e) w = step env Click_import w"
  by (simp add: handleKeyDown_def split: prod.splits)

theorem handleKeyDown_is_doImport_witness:
  "snd (handleKeyDown ctrl_enter pasted)
     = ([ImportFromCode (str ''<p>hi</p>'') ''html_tailwind''], pasted)"
proof -
  have pressed: "key ctrl_enter = str ''Enter''" "metaKey ctrl_enter \<or> ctrlKey ctrl_enter"
    by (simp_all add: ctrl_enter_def)
  have "doImport pasted = ([ImportFromCode (str ''<p>hi</p>'') ''html_tailwind''], pasted)"
    by (simp add: doImport_def pasted_def str_def)
  with handleKeyDown_is_doImport [OF pressed, THEN conjunct1, of pasted] show ?thesis
    by simp
qed

text \<open>
  C10. A text buffer that is not the empty string and holds only characters that
  \<open>trim\<close> removes passes the check of \<open>doImport\<close>, which compares with the empty
  string and does not trim: with a stack selected, \<open>importFromCode\<close> is called with
  that buffer.
\<close>

theorem doImport_whitespace:
  "code s \<noteq> [] \<Longrightarrow> \<forall>c \<in> set (code s). trimmable c \<Longrightarrow> stack s = Some k \<Longrightarrow>
     trim (code s) = [] \<and> doImport s = ([ImportFromCode (code s) k], s)"
  by (simp add: doImport_def all_trimmable_trim)

theorem doImport_whitespace_witness:
  "doImport (pasted\<lparr>code := str '' ''\<rparr>)
     = ([ImportFromCode (str '' '') ''html_tailwind''], pasted\<lparr>code := str '' ''\<rparr>)"
  using doImport_whitespace [of "pasted\<lparr>code := str '' ''\<rparr>" "''html_tailwind''"]
  by (simp add: pasted_def str_def trimmable_def WhiteSpace_def)

end
